theory Spec2Isabelle
  imports Main
begin

section \<open>JavaScript values and built-ins the class relies on\<close>

text \<open>
  A promise ends resolved, rejected, or never settled. The last case is real in this
  class: every \<^verbatim>\<open>catch\<close> block only evaluates \<^verbatim>\<open>Error(error)\<close>, which builds an
  error object and drops it, and an exception thrown inside an \<^verbatim>\<open>async\<close> executor
  rejects the executor's own promise, not the one the method returned.
\<close>

datatype ('a, 'e) promise = Resolved 'a | Rejected 'e | Unsettled

text \<open>
  JavaScript numbers are read as exact integers, \<open>None\<close> standing for \<^verbatim>\<open>NaN\<close>;
  strings are lists of 8-bit characters. The class only subtracts two parsed timestamps
  and compares the difference with 300; as long as the clock reading is below \<open>2^53\<close>,
  rounding a longer timestamp to a double leaves that comparison as it is on the exact
  integers.
\<close>

type_synonym number = "int option"

definition num_sub :: "number \<Rightarrow> number \<Rightarrow> number" where
  "num_sub a b = (case a of None \<Rightarrow> None | Some x \<Rightarrow> (case b of None \<Rightarrow> None | Some y \<Rightarrow> Some (x - y)))"

definition num_lt :: "number \<Rightarrow> int \<Rightarrow> bool" where
  "num_lt a k = (case a of None \<Rightarrow> False | Some x \<Rightarrow> x < k)"

definition num_gt :: "number \<Rightarrow> int \<Rightarrow> bool" where
  "num_gt a k = (case a of None \<Rightarrow> False | Some x \<Rightarrow> k < x)"

text \<open>\<^verbatim>\<open>String.prototype.split(':')\<close>: the pieces between the separators, at least one.\<close>

fun split_on :: "char \<Rightarrow> string \<Rightarrow> string list" where
  "split_on c [] = [[]]"
| "split_on c (x # xs) =
     (if x = c then [] # split_on c xs
      else (case split_on c xs of [] \<Rightarrow> [[x]] | y # ys \<Rightarrow> (x # y) # ys))"

text \<open>Reading an array index: \<open>None\<close> is \<^verbatim>\<open>undefined\<close>.\<close>

definition at_index :: "'a list \<Rightarrow> nat \<Rightarrow> 'a option" where
  "at_index xs i = (if i < length xs then Some (xs ! i) else None)"

text \<open>
  \<^verbatim>\<open>parseInt(x)\<close> with no radix: \<^verbatim>\<open>undefined\<close> is first turned into the string
  \<^verbatim>\<open>"undefined"\<close>; leading white space is skipped, one sign is read, a \<^verbatim>\<open>0x\<close> prefix
  selects radix 16, and the longest run of digits is the value. No digit gives \<^verbatim>\<open>NaN\<close>.
\<close>

definition is_space :: "char \<Rightarrow> bool" where
  "is_space c = (c = CHR 0x09 \<or> c = CHR 0x0A \<or> c = CHR 0x0B \<or> c = CHR 0x0C \<or> c = CHR 0x0D
                 \<or> c = CHR 0x20 \<or> c = CHR 0xA0)"

definition digit_val :: "char \<Rightarrow> int option" where
  "digit_val c =
     (let n = (of_char c :: int) in
      if 48 \<le> n \<and> n \<le> 57 then Some (n - 48)
      else if 97 \<le> n \<and> n \<le> 122 then Some (n - 87)
      else if 65 \<le> n \<and> n \<le> 90 then Some (n - 55)
      else None)"

definition is_digit :: "int \<Rightarrow> char \<Rightarrow> bool" where
  "is_digit radix c = (case digit_val c of None \<Rightarrow> False | Some d \<Rightarrow> d < radix)"

definition digits_value :: "int \<Rightarrow> string \<Rightarrow> int" where
  "digits_value radix ds = foldl (\<lambda>a c. a * radix + (case digit_val c of None \<Rightarrow> 0 | Some d \<Rightarrow> d)) 0 ds"

definition parseInt_string :: "string \<Rightarrow> number" where
  "parseInt_string str =
     (let s = dropWhile is_space str;
          negative = (case s of [] \<Rightarrow> False | c # r \<Rightarrow> c = CHR ''-'');
          s = (case s of [] \<Rightarrow> [] | c # r \<Rightarrow> if c = CHR ''-'' \<or> c = CHR ''+'' then r else s);
          hex = (take 2 s = ''0x'' \<or> take 2 s = ''0X'');
          radix = (if hex then 16 else 10);
          s = (if hex then drop 2 s else s);
          ds = takeWhile (is_digit radix) s
      in if ds = [] then None
         else Some ((if negative then - 1 else 1) * digits_value radix ds))"

definition parseInt :: "string option \<Rightarrow> number" where
  "parseInt x = parseInt_string (case x of None \<Rightarrow> ''undefined'' | Some s \<Rightarrow> s)"

text \<open>\<^verbatim>\<open>Number.prototype.toString()\<close> of an integer.\<close>

function digits :: "int \<Rightarrow> string" where
  "digits n = (if n < 10 then [char_of (48 + n)] else digits (n div 10) @ [char_of (48 + n mod 10)])"
  by pat_completeness auto
termination
  by (relation "measure nat") auto

declare digits.simps [simp del]

definition Number_toString :: "int \<Rightarrow> string" where
  "Number_toString i = (if i < 0 then CHR ''-'' # digits (- i) else digits i)"

text \<open>
  \<^verbatim>\<open>JSON.stringify\<close> of a string (quotes, backslashes and control characters escaped)
  and of a string-or-null.
\<close>

definition hexdigit :: "int \<Rightarrow> char" where
  "hexdigit n = (if n < 10 then char_of (48 + n) else char_of (87 + n))"

definition JSON_char :: "char \<Rightarrow> string" where
  "JSON_char c =
     (if c = CHR 0x22 then [CHR 0x5C, CHR 0x22]
      else if c = CHR 0x5C then [CHR 0x5C, CHR 0x5C]
      else if c = CHR 0x08 then [CHR 0x5C, CHR ''b'']
      else if c = CHR 0x0C then [CHR 0x5C, CHR ''f'']
      else if c = CHR 0x0A then [CHR 0x5C, CHR ''n'']
      else if c = CHR 0x0D then [CHR 0x5C, CHR ''r'']
      else if c = CHR 0x09 then [CHR 0x5C, CHR ''t'']
      else if (of_char c :: int) < 32
        then [CHR 0x5C, CHR ''u'', CHR ''0'', CHR ''0'',
              hexdigit ((of_char c :: int) div 16), hexdigit ((of_char c :: int) mod 16)]
      else [c])"

definition JSON_string :: "string \<Rightarrow> string" where
  "JSON_string s = [CHR 0x22] @ concat (map JSON_char s) @ [CHR 0x22]"

definition JSON_string_or_null :: "string option \<Rightarrow> string" where
  "JSON_string_or_null x = (case x of None \<Rightarrow> ''null'' | Some s \<Rightarrow> JSON_string s)"

section \<open>Blocks\<close>

text \<open>
  A block object as \<^verbatim>\<open>_addBlock\<close> and \<^verbatim>\<open>validateChain\<close> read and write it. \<open>None\<close> in
  \<open>hash\<close> and \<open>previousBlockHash\<close> is JavaScript's \<^verbatim>\<open>null\<close>; \<open>time\<close> is the string
  \<^verbatim>\<open>new Date().getTime().toString().slice(0,-3)\<close>.
\<close>

record block =
  hash :: "string option"
  height :: int
  body :: string
  time :: string
  previousBlockHash :: "string option"

text \<open>
  \<^verbatim>\<open>JSON.stringify(block)\<close> writes the object's own properties in the order they were
  created, which is the order of the constructor in \<^verbatim>\<open>block.js\<close> (not among the
  sources); it is taken to be hash, height, body, time, previousBlockHash. All five are
  written, \<open>hash\<close> among them, with whatever it holds at that moment.
\<close>

definition JSON_stringify :: "block \<Rightarrow> string" where
  "JSON_stringify b =
     ''{'' @ JSON_string ''hash'' @ '':'' @ JSON_string_or_null (hash b)
     @ '','' @ JSON_string ''height'' @ '':'' @ Number_toString (height b)
     @ '','' @ JSON_string ''body'' @ '':'' @ JSON_string (body b)
     @ '','' @ JSON_string ''time'' @ '':'' @ JSON_string (time b)
     @ '','' @ JSON_string ''previousBlockHash'' @ '':'' @ JSON_string_or_null (previousBlockHash b)
     @ ''}''"

text \<open>
  What a block is built from: the genesis marker \<^verbatim>\<open>{data: 'Genesis Block'}\<close> or the
  object \<^verbatim>\<open>{address, message, signature, star}\<close> of a submission.
\<close>

datatype block_data =
    Genesis_Block
  | Star_data string string string string

text \<open>What \<^verbatim>\<open>getBData\<close> hands back: an object whose \<open>address\<close> may be missing.\<close>

datatype payload = Payload (payload_address: "string option") (content: string)

datatype verdict = Returns bool | Raises

text \<open>
  Code outside the class: the digest of \<^verbatim>\<open>crypto-js\<close>, the signature check of
  \<^verbatim>\<open>bitcoinjs-message\<close>, the payload codec of the block class, and the one coercion of
  \<^verbatim>\<open>==\<close> that needs floating point (whether a string converts to the number 0).
\<close>

record libs =
  SHA256 :: "string \<Rightarrow> string"
  verify :: "string \<Rightarrow> string \<Rightarrow> string \<Rightarrow> verdict"
  encode :: "block_data \<Rightarrow> string"
  getBData :: "block \<Rightarrow> payload option"
  string_is_zero :: "string \<Rightarrow> bool"

text \<open>
  Modelled from the spec: the constructor of the block class (\<^verbatim>\<open>block.js\<close> is not among
  the sources). A new block carries the encoded payload; height, timestamp, previous hash
  and hash are assigned at append time, and until then the hash is \<^verbatim>\<open>null\<close>.
\<close>

definition Block :: "libs \<Rightarrow> block_data \<Rightarrow> block" where
  "Block L d = \<lparr>hash = None, height = 0, body = encode L d, time = ''0'', previousBlockHash = None\<rparr>"

text \<open>
  Modelled from the spec: \<^verbatim>\<open>block.validate()\<close> (\<^verbatim>\<open>block.js\<close> is not among the
  sources). It recomputes the digest over all the other fields, in the serialization
  \<^verbatim>\<open>_addBlock\<close> hashes with the hash field blank, and compares it with the stored hash.
\<close>

definition recompute_hash :: "libs \<Rightarrow> block \<Rightarrow> string" where
  "recompute_hash L b = SHA256 L (JSON_stringify (b\<lparr>hash := None\<rparr>))"

definition validate :: "libs \<Rightarrow> block \<Rightarrow> bool" where
  "validate L b = (hash b = Some (recompute_hash L b))"

section \<open>The chain\<close>

record store =
  chain :: "block list"
  chainHeight :: int

text \<open>The constructor's two assignments, before \<^verbatim>\<open>initializeChain\<close> runs.\<close>

definition empty_store :: store where
  "empty_store = \<lparr>chain = [], chainHeight = - 1\<rparr>"

text \<open>
  \<^verbatim>\<open>_addBlock(block)\<close>, with the clock reading \<open>now\<close>. The digest is taken over the
  whole object as it stands on line 81, before the new hash is stored. Reading the tail
  of an empty array while the counter is not \<open>-1\<close> throws inside the \<^verbatim>\<open>try\<close>; the
  handler swallows it and the promise never settles.
\<close>

definition seal :: "libs \<Rightarrow> store \<Rightarrow> block \<Rightarrow> (block, unit) promise \<times> store" where
  "seal L self b =
     (let b = b\<lparr>hash := Some (SHA256 L (JSON_stringify b))\<rparr>
      in (Resolved b, \<lparr>chain = chain self @ [b], chainHeight = chainHeight self + 1\<rparr>))"

definition addBlock :: "libs \<Rightarrow> store \<Rightarrow> block \<Rightarrow> string \<Rightarrow> (block, unit) promise \<times> store" where
  "addBlock L self b now =
     (let b = b\<lparr>height := chainHeight self + 1\<rparr>;
          b = b\<lparr>time := now\<rparr>
      in if chainHeight self = - 1 then seal L self (b\<lparr>previousBlockHash := None\<rparr>)
         else (case chain self of
                 [] \<Rightarrow> (Unsettled, self)
               | _ # _ \<Rightarrow> seal L self (b\<lparr>previousBlockHash := hash (last (chain self))\<rparr>)))"

text \<open>
  \<^verbatim>\<open>validateChain()\<close>. \<open>previous_Block_Hash\<close> starts as the number 0 and then holds a
  block's hash. \<^verbatim>\<open>ChainIsValid\<close> is declared \<^verbatim>\<open>const\<close>, so each of the two
  \<^verbatim>\<open>ChainIsValid = false\<close> throws a TypeError right after the message has been pushed:
  the \<^verbatim>\<open>forEach\<close> stops there and the executor ends without settling the promise.
\<close>

datatype previous_hash = Zero | Hash "string option"

definition show_previous :: "previous_hash \<Rightarrow> string" where
  "show_previous p = (case p of Zero \<Rightarrow> ''0'' | Hash None \<Rightarrow> ''null'' | Hash (Some h) \<Rightarrow> h)"

definition loose_eq :: "libs \<Rightarrow> string option \<Rightarrow> previous_hash \<Rightarrow> bool" where
  "loose_eq L x p =
     (case p of
        Hash y \<Rightarrow> x = y
      | Zero \<Rightarrow> (case x of None \<Rightarrow> False | Some s \<Rightarrow> string_is_zero L s))"

definition block_error :: "block \<Rightarrow> string" where
  "block_error b = ''<br><hr>Il y a une erreur sur le block '' @ Number_toString (height b)"

definition link_error :: "previous_hash \<Rightarrow> block \<Rightarrow> string" where
  "link_error p b =
     ''<br>Les hash ne coresspondent pas, la chaine est bris'' @ [CHR 0xE9]
     @ '', previous bloc hash: '' @ show_previous p
     @ ''  pr'' @ [CHR 0xE9] @ ''sent hash = '' @ show_previous (Hash (previousBlockHash b))"

datatype 'a completion = Normal 'a | TypeError 'a

type_synonym vstate = "previous_hash \<times> string list"

definition check_block :: "libs \<Rightarrow> block \<Rightarrow> vstate \<Rightarrow> vstate completion" where
  "check_block L b st =
     (let previous_Block_Hash = (if height b = 0 then Hash (hash b) else fst st);
          errorLog = snd st
      in if \<not> validate L b
           then TypeError (previous_Block_Hash, errorLog @ [block_error b])
         else if height b = 0
           then Normal (Hash (hash b), errorLog)
         else if loose_eq L (previousBlockHash b) previous_Block_Hash
           then Normal (Hash (hash b), errorLog)
         else TypeError (previous_Block_Hash, errorLog @ [link_error previous_Block_Hash b]))"

fun forEach :: "('b \<Rightarrow> 's \<Rightarrow> 's completion) \<Rightarrow> 'b list \<Rightarrow> 's \<Rightarrow> 's completion" where
  "forEach f [] s = Normal s"
| "forEach f (b # bs) s = (case f b s of Normal s' \<Rightarrow> forEach f bs s' | TypeError s' \<Rightarrow> TypeError s')"

text \<open>
  In \<^verbatim>\<open>src/blockchain.js\<close> the last statement resolves with \<^verbatim>\<open>true\<close> or rejects with
  the log; \<^verbatim>\<open>ChainIsValid\<close> still holds \<^verbatim>\<open>true\<close> whenever it is reached.
\<close>

definition validateChain :: "libs \<Rightarrow> store \<Rightarrow> (bool, string list) promise" where
  "validateChain L self =
     (let ChainIsValid = True
      in case forEach (check_block L) (chain self) (Zero, []) of
           TypeError _ \<Rightarrow> Unsettled
         | Normal st \<Rightarrow> if ChainIsValid then Resolved True else Rejected (snd st))"

text \<open>The second copy of the class (\<^verbatim>\<open>part_000\<close>) resolves with the log instead.\<close>

datatype validation = Valid | Log "string list"

definition validateChain_part_000 :: "libs \<Rightarrow> store \<Rightarrow> (validation, unit) promise" where
  "validateChain_part_000 L self =
     (let ChainIsValid = True
      in case forEach (check_block L) (chain self) (Zero, []) of
           TypeError _ \<Rightarrow> Unsettled
         | Normal st \<Rightarrow> if ChainIsValid then Resolved Valid else Resolved (Log (snd st)))"

text \<open>
  The constructor: \<^verbatim>\<open>initializeChain\<close> appends the genesis block, whose
  \<^verbatim>\<open>_addBlock\<close> finishes before the constructor returns. The constructor then starts
  \<^verbatim>\<open>validateChain\<close> and drops its promise, which changes nothing in the store.
\<close>

definition initializeChain :: "libs \<Rightarrow> store \<Rightarrow> string \<Rightarrow> store" where
  "initializeChain L self now =
     (if chainHeight self = - 1 then snd (addBlock L self (Block L Genesis_Block) now) else self)"

definition Blockchain :: "libs \<Rightarrow> string \<Rightarrow> store" where
  "Blockchain L now = initializeChain L empty_store now"

text \<open>
  A run of appends on a store: each entry is the data of a newly constructed block and
  the clock reading of its \<^verbatim>\<open>_addBlock\<close>.
\<close>

fun appends :: "libs \<Rightarrow> store \<Rightarrow> (block_data \<times> string) list \<Rightarrow> store" where
  "appends L self [] = self"
| "appends L self ((d, now) # rest) = appends L (snd (addBlock L self (Block L d) now)) rest"

section \<open>Submitting a star\<close>

text \<open>
  What a call leaves behind: how its promise ended, the store, and how often the
  signature check was called. A rejection carries a message or a block object.
\<close>

datatype rejection = Reason string | Rejected_block block

record result =
  outcome :: "(block, rejection) promise"
  final :: store
  verify_calls :: nat

text \<open>Only the first \<^verbatim>\<open>resolve\<close> or \<^verbatim>\<open>reject\<close> of a promise counts.\<close>

definition settle :: "('a, 'e) promise \<Rightarrow> ('a, 'e) promise \<Rightarrow> ('a, 'e) promise" where
  "settle p q = (case p of Unsettled \<Rightarrow> q | _ \<Rightarrow> p)"

text \<open>
  \<^verbatim>\<open>submitStar\<close> of \<^verbatim>\<open>src/blockchain.js\<close>. \<open>now\<close> is the clock string read on line 139,
  \<open>stamp\<close> the one \<^verbatim>\<open>_addBlock\<close> reads. An \<^verbatim>\<open>await\<close> on a promise that never settles
  never resumes, and one on a rejected promise throws into a handler that drops the error.
\<close>

definition submitStar ::
  "libs \<Rightarrow> store \<Rightarrow> string \<Rightarrow> string \<Rightarrow> string \<Rightarrow> string \<Rightarrow> string \<Rightarrow> string \<Rightarrow> result" where
  "submitStar L self address message signature star now stamp =
     (let timeOfSubmission = parseInt (at_index (split_on CHR '':'' message) 1);
          currentTime = parseInt (Some now);
          delaie = num_sub currentTime timeOfSubmission
      in if num_lt delaie 300 then
           (let BooMessageVerified =
                  (case verify L message address signature of Returns r \<Rightarrow> r | Raises \<Rightarrow> False)
            in if BooMessageVerified then
                 (let blockToPush = Block L (Star_data address message signature star)
                  in case addBlock L self blockToPush stamp of
                       (Resolved b, self') \<Rightarrow>
                         (case validateChain L self' of
                            Resolved blockchain_valide_boo \<Rightarrow>
                              \<lparr>outcome = (if blockchain_valide_boo then Resolved b
                                          else Rejected (Rejected_block b)),
                               final = self', verify_calls = 1\<rparr>
                          | Rejected errorLog \<Rightarrow>
                              \<lparr>outcome = Unsettled, final = self', verify_calls = 1\<rparr>
                          | Unsettled \<Rightarrow>
                              \<lparr>outcome = Unsettled, final = self', verify_calls = 1\<rparr>)
                     | (_, self') \<Rightarrow> \<lparr>outcome = Unsettled, final = self', verify_calls = 1\<rparr>)
               else \<lparr>outcome = Rejected (Reason ''There was a error verifiyng your message.''),
                     final = self, verify_calls = 1\<rparr>)
         else \<lparr>outcome = Rejected (Reason ''The 5 minute delay has been reached''),
               final = self, verify_calls = 0\<rparr>)"

text \<open>
  \<^verbatim>\<open>submitStar\<close> of \<^verbatim>\<open>part_000\<close>. After rejecting on the time it goes on: the signature
  check is called in every case, and the flag stops it before the append (the test
  \<^verbatim>\<open>!isVerified || flagTimeElapsed == true\<close> is written as \<^verbatim>\<open>||\<close> evaluates it). The
  validator is started but not awaited, and its result is not used.
\<close>

definition submitStar_part_000 ::
  "libs \<Rightarrow> store \<Rightarrow> string \<Rightarrow> string \<Rightarrow> string \<Rightarrow> string \<Rightarrow> string \<Rightarrow> string \<Rightarrow> result" where
  "submitStar_part_000 L self address message signature star now stamp =
     (let messageTime = parseInt (at_index (split_on CHR '':'' message) 1);
          currentTime = parseInt (Some now);
          flagTimeElapsed = num_gt (num_sub currentTime messageTime) 300;
          p = (if flagTimeElapsed
               then settle Unsettled (Rejected (Reason ''submitStar: more than five minutes have elapsed''))
               else Unsettled);
          isVerified = (case verify L message address signature of Returns r \<Rightarrow> r | Raises \<Rightarrow> False);
          b = Block L (Star_data address message signature star)
      in if (if \<not> isVerified then True else flagTimeElapsed)
           then \<lparr>outcome = settle p (Rejected (Rejected_block b)), final = self, verify_calls = 1\<rparr>
         else (case addBlock L self b stamp of
                 (Resolved b', self') \<Rightarrow>
                   (let blockchain_valide_boo = validateChain_part_000 L self'
                    in \<lparr>outcome = settle p (Resolved b'), final = self', verify_calls = 1\<rparr>)
               | (_, self') \<Rightarrow> \<lparr>outcome = p, final = self', verify_calls = 1\<rparr>))"

section \<open>Looking stars up\<close>

text \<open>
  \<^verbatim>\<open>getStarsByWalletAddress\<close>. The callbacks run in chain order; \<^verbatim>\<open>getBData\<close> is taken to
  settle its promise before it returns, so that every callback has finished when the
  caller reads the array. A rejected \<^verbatim>\<open>getBData\<close> (\<open>None\<close>) ends its callback only.
  Addresses are strings or \<^verbatim>\<open>undefined\<close> (\<open>None\<close>), compared with \<^verbatim>\<open>===\<close>.
\<close>

definition visit :: "libs \<Rightarrow> string option \<Rightarrow> payload list \<Rightarrow> block \<Rightarrow> payload list" where
  "visit L addr stars b =
     (case getBData L b of
        None \<Rightarrow> stars
      | Some currentBlockUncripted \<Rightarrow>
          if height b = 0 then stars
          else if payload_address currentBlockUncripted = addr then stars @ [currentBlockUncripted]
          else stars)"

definition getStarsByWalletAddress :: "libs \<Rightarrow> store \<Rightarrow> string option \<Rightarrow> (payload list, unit) promise" where
  "getStarsByWalletAddress L self addr = Resolved (foldl (visit L addr) [] (chain self))"

text \<open>The copy in \<^verbatim>\<open>part_000\<close> has no test on the height.\<close>

definition visit_part_000 :: "libs \<Rightarrow> string option \<Rightarrow> payload list \<Rightarrow> block \<Rightarrow> payload list" where
  "visit_part_000 L addr results b =
     (case getBData L b of
        None \<Rightarrow> results
      | Some blockData \<Rightarrow> if payload_address blockData = addr then results @ [blockData] else results)"

definition getStarsByWalletAddress_part_000 ::
  "libs \<Rightarrow> store \<Rightarrow> string option \<Rightarrow> (payload list, unit) promise" where
  "getStarsByWalletAddress_part_000 L self addr = Resolved (foldl (visit_part_000 L addr) [] (chain self))"

section \<open>Invariants of a chain grown by appends\<close>

text \<open>
  The validator's loop runs through the whole chain without a violation and ends with the
  tail's hash as the expected previous hash; the counter is the last index.
\<close>

definition sound :: "libs \<Rightarrow> store \<Rightarrow> bool" where
  "sound L s =
     (chain s \<noteq> [] \<and> chainHeight s = int (length (chain s)) - 1
      \<and> forEach (check_block L) (chain s) (Zero, []) = Normal (Hash (hash (last (chain s))), []))"

text \<open>
  Each block names the hash of the block before it (\<open>p\<close> for the first), sits at its
  index (counted from \<open>n\<close>), and has a hash that is not \<^verbatim>\<open>null\<close>.
\<close>

fun links :: "string option \<Rightarrow> int \<Rightarrow> block list \<Rightarrow> bool" where
  "links p n [] = True"
| "links p n (b # bs) = (previousBlockHash b = p \<and> height b = n \<and> hash b \<noteq> None \<and> links (hash b) (n + 1) bs)"

definition linked :: "store \<Rightarrow> bool" where
  "linked s = (chain s \<noteq> [] \<and> chainHeight s = int (length (chain s)) - 1 \<and> links None 0 (chain s))"

section \<open>A concrete setting\<close>

text \<open>
  Stand-ins for the outside code, to run the class on concrete inputs: the sum of the
  character codes as the digest, a signature check that knows the signatures \<^verbatim>\<open>good\<close> and \<^verbatim>\<open>bad\<close>,
  and a codec that writes the owner before a bar.
\<close>

definition toy_libs :: libs where
  "toy_libs =
     \<lparr>SHA256 = (\<lambda>s. digits (foldl (\<lambda>h c. h + of_char c) 0 s)),
      verify = (\<lambda>m a sg. if sg = ''good'' then Returns True
                           else if sg = ''bad'' then Returns False else Raises),
      encode = (\<lambda>d. case d of Genesis_Block \<Rightarrow> ''Genesis Block''
                              | Star_data a m sg st \<Rightarrow> a @ ''|'' @ st),
      getBData = (\<lambda>b. if CHR ''|'' \<in> set (body b)
                        then Some (Payload (Some (takeWhile (\<lambda>c. c \<noteq> CHR ''|'') (body b))) (body b))
                        else Some (Payload None (body b))),
      string_is_zero = (\<lambda>s. s = ''0'')\<rparr>"

definition two_stars :: store where
  "two_stars =
     appends toy_libs (Blockchain toy_libs ''1600000000'')
       [(Star_data ''A'' ''A:1600000000:starRegistry'' ''good'' ''Vega'', ''1600000100''),
        (Star_data ''B'' ''B:1600000150:starRegistry'' ''good'' ''Deneb'', ''1600000200'')]"

text \<open>
  The same chain after someone wrote into the array: the body of block 1 and the previous
  hash of block 2 are changed, the stored hashes are not.
\<close>

definition tampered :: store where
  "tampered =
     two_stars\<lparr>chain :=
       (chain two_stars)
         [1 := (chain two_stars ! 1)\<lparr>body := ''forged''\<rparr>,
          2 := (chain two_stars ! 2)\<lparr>previousBlockHash := Some ''forged''\<rparr>]\<rparr>"

text \<open>A chain whose block at height 0 decodes to an owner.\<close>

definition owned_genesis :: store where
  "owned_genesis =
     \<lparr>chain = [\<lparr>hash = Some ''h0'', height = 0, body = ''A|Sirius'', time = ''1600000000'',
               previousBlockHash = None\<rparr>],
      chainHeight = 0\<rparr>"



section \<open>Appends keep the chain valid\<close>

lemma forEach_snoc:
  "forEach f (xs @ [x]) s = (case forEach f xs s of Normal s' \<Rightarrow> f x s' | TypeError s' \<Rightarrow> TypeError s')"
  by (induction xs arbitrary: s) (auto split: completion.splits)

lemma addBlock_nonempty:
  "chain s \<noteq> [] \<Longrightarrow> chainHeight s \<noteq> - 1 \<Longrightarrow>
   addBlock L s b now =
     seal L s (b\<lparr>height := chainHeight s + 1, time := now, previousBlockHash := hash (last (chain s))\<rparr>)"
  by (cases "chain s") (simp_all add: addBlock_def Let_def)

lemma addBlock_first:
  "chainHeight s = - 1 \<Longrightarrow>
   addBlock L s b now = seal L s (b\<lparr>height := 0, time := now, previousBlockHash := None\<rparr>)"
  by (simp add: addBlock_def Let_def)

lemma sound_Blockchain: "sound L (Blockchain L now)"
  by (simp add: sound_def Blockchain_def initializeChain_def empty_store_def addBlock_first
      seal_def Let_def check_block_def validate_def recompute_hash_def Block_def)

lemma sound_not_first: "sound L s \<Longrightarrow> chainHeight s \<noteq> - 1"
  by (cases "chain s") (simp_all add: sound_def)

lemma sound_addBlock:
  assumes "sound L s"
  shows "sound L (snd (addBlock L s (Block L d) now))"
proof -
  from assms have ne: "chain s \<noteq> []" and h: "chainHeight s = int (length (chain s)) - 1"
    and run: "forEach (check_block L) (chain s) (Zero, []) = Normal (Hash (hash (last (chain s))), [])"
    by (simp_all add: sound_def)
  from ne have len: "0 < length (chain s)" by simp
  have h1: "chainHeight s \<noteq> - 1" by (rule sound_not_first [OF assms])
  show ?thesis
    using ne h len run
    by (simp add: addBlock_nonempty [OF ne h1] sound_def seal_def Let_def forEach_snoc
        check_block_def validate_def recompute_hash_def Block_def loose_eq_def)
qed

lemma sound_appends: "sound L s \<Longrightarrow> sound L (appends L s ops)"
  by (induction ops arbitrary: s) (auto simp: sound_addBlock)

lemma sound_validateChain: "sound L s \<Longrightarrow> validateChain L s = Resolved True"
  by (simp add: sound_def validateChain_def)

lemma sound_validateChain_part_000: "sound L s \<Longrightarrow> validateChain_part_000 L s = Resolved Valid"
  by (simp add: sound_def validateChain_part_000_def)

lemma sound_addBlock_resolves:
  assumes "sound L s"
  shows "addBlock L s b now =
           (Resolved (last (chain (snd (addBlock L s b now)))), snd (addBlock L s b now))
         \<and> chain (snd (addBlock L s b now)) = chain s @ [last (chain (snd (addBlock L s b now)))]"
proof -
  from assms have ne: "chain s \<noteq> []" by (simp add: sound_def)
  have h1: "chainHeight s \<noteq> - 1" by (rule sound_not_first [OF assms])
  show ?thesis
    by (simp add: addBlock_nonempty [OF ne h1] seal_def Let_def)
qed

text \<open>
  C1. Take the store the constructor leaves, with its genesis block, and append newly
  constructed blocks to it with \<^verbatim>\<open>_addBlock\<close>. After each append (after the first \<open>n\<close>
  of them, for every \<open>n\<close>) \<^verbatim>\<open>validateChain\<close> resolves with \<^verbatim>\<open>true\<close>: it reports success,
  and its loop ends with an empty error log. This holds for the validator of both copies
  of the class.
\<close>

theorem validateChain_after_each_append:
  "validateChain L (appends L (Blockchain L t0) (take n ops)) = Resolved True
   \<and> validateChain_part_000 L (appends L (Blockchain L t0) (take n ops)) = Resolved Valid
   \<and> (case forEach (check_block L) (chain (appends L (Blockchain L t0) (take n ops))) (Zero, []) of
         Normal st \<Rightarrow> snd st = []
       | TypeError st \<Rightarrow> False)"
  using sound_appends [OF sound_Blockchain, of L t0 "take n ops"]
  by (simp add: sound_validateChain sound_validateChain_part_000 sound_def)

section \<open>The genesis block and the links\<close>

lemma links_snoc:
  "links p n (xs @ [b]) =
     (links p n xs \<and> previousBlockHash b = (if xs = [] then p else hash (last xs))
      \<and> height b = n + int (length xs) \<and> hash b \<noteq> None)"
  by (induction xs arbitrary: p n) auto

lemma links_nth:
  "links p n bs \<Longrightarrow> i < length bs \<Longrightarrow>
     height (bs ! i) = n + int i \<and> hash (bs ! i) \<noteq> None
     \<and> previousBlockHash (bs ! i) = (if i = 0 then p else hash (bs ! (i - 1)))"
proof (induction bs arbitrary: p n i)
  case Nil
  then show ?case by simp
next
  case (Cons b bs)
  show ?case
  proof (cases i)
    case 0
    with Cons.prems show ?thesis by simp
  next
    case (Suc j)
    with Cons.prems have "links (hash b) (n + 1) bs" and "j < length bs" by simp_all
    from Cons.IH [OF this] Suc show ?thesis
      by (cases j) simp_all
  qed
qed

lemma linked_Blockchain: "linked (Blockchain L now)"
  by (simp add: linked_def Blockchain_def initializeChain_def empty_store_def addBlock_first
      seal_def Let_def Block_def)

lemma linked_addBlock:
  assumes "linked s"
  shows "linked (snd (addBlock L s b now))"
proof -
  from assms have ne: "chain s \<noteq> []" and h: "chainHeight s = int (length (chain s)) - 1"
    and l: "links None 0 (chain s)"
    by (simp_all add: linked_def)
  from ne have len: "0 < length (chain s)" by simp
  with h have h1: "chainHeight s \<noteq> - 1" by linarith
  show ?thesis
    using ne h l
    by (simp add: addBlock_nonempty [OF ne h1] linked_def seal_def Let_def links_snoc)
qed

lemma linked_appends: "linked s \<Longrightarrow> linked (appends L s ops)"
  by (induction ops arbitrary: s) (auto simp: linked_addBlock)

text \<open>
  C9. In every chain that the constructor and appends produce, the block at index 0 has
  height 0 and previous hash \<^verbatim>\<open>null\<close>, and it is the only such block: every later block
  holds the hash of the block before it as its previous hash, which is a string and
  not \<^verbatim>\<open>null\<close>, and sits at the height of its index.
\<close>

theorem genesis_only_block_without_previous_hash:
  assumes "s = appends L (Blockchain L t0) ops"
  shows "chain s \<noteq> [] \<and> height (chain s ! 0) = 0 \<and> previousBlockHash (chain s ! 0) = None
         \<and> (\<forall>i. 0 < i \<and> i < length (chain s) \<longrightarrow>
               previousBlockHash (chain s ! i) = hash (chain s ! (i - 1))
               \<and> previousBlockHash (chain s ! i) \<noteq> None \<and> height (chain s ! i) = int i)"
proof -
  have "linked s"
    unfolding assms by (rule linked_appends [OF linked_Blockchain])
  then have ne: "chain s \<noteq> []" and l: "links None 0 (chain s)"
    by (simp_all add: linked_def)
  from ne have "0 < length (chain s)" by simp
  from links_nth [OF l this] have first: "height (chain s ! 0) = 0 \<and> previousBlockHash (chain s ! 0) = None"
    by simp
  have rest: "previousBlockHash (chain s ! i) = hash (chain s ! (i - 1))
              \<and> previousBlockHash (chain s ! i) \<noteq> None \<and> height (chain s ! i) = int i"
    if "0 < i" and "i < length (chain s)" for i
  proof -
    from that have "i - 1 < length (chain s)" by simp
    from links_nth [OF l this] have "hash (chain s ! (i - 1)) \<noteq> None" by simp
    with links_nth [OF l that(2)] that(1) show ?thesis by simp
  qed
  from ne first rest show ?thesis by blast
qed

lemma two_stars_length: "length (chain two_stars) = 3"
  by code_simp

theorem genesis_only_block_without_previous_hash_witness:
  "two_stars = appends toy_libs (Blockchain toy_libs ''1600000000'')
       [(Star_data ''A'' ''A:1600000000:starRegistry'' ''good'' ''Vega'', ''1600000100''),
        (Star_data ''B'' ''B:1600000150:starRegistry'' ''good'' ''Deneb'', ''1600000200'')]
   \<and> chain two_stars \<noteq> [] \<and> height (chain two_stars ! 0) = 0
   \<and> previousBlockHash (chain two_stars ! 0) = None
   \<and> (0::nat) < 2 \<and> 2 < length (chain two_stars)
   \<and> previousBlockHash (chain two_stars ! 2) = hash (chain two_stars ! (2 - 1))
   \<and> previousBlockHash (chain two_stars ! 2) \<noteq> None \<and> height (chain two_stars ! 2) = int 2"
  (is "?A \<and> ?B")
proof (rule conjI)
  show ?A by (rule two_stars_def)
next
  note t = genesis_only_block_without_previous_hash [OF two_stars_def]
  have c: "(0::nat) < 2 \<and> 2 < length (chain two_stars)"
    by (simp add: two_stars_length)
  with t show ?B by blast
qed

section \<open>What the digest is taken over\<close>



section \<open>The concrete chains, evaluated\<close>

lemma two_stars_eq:
  "two_stars =
     \<lparr>chain =
        [\<lparr>hash = Some ''7538'', height = 0, body = ''Genesis Block'', time = ''1600000000'',
          previousBlockHash = None\<rparr>,
         \<lparr>hash = Some ''6715'', height = 1, body = ''A|Vega'', time = ''1600000100'',
          previousBlockHash = Some ''7538''\<rparr>,
         \<lparr>hash = Some ''6805'', height = 2, body = ''B|Deneb'', time = ''1600000200'',
          previousBlockHash = Some ''6715''\<rparr>],
      chainHeight = 2\<rparr>"
  by code_simp

lemma tampered_eq:
  "tampered =
     \<lparr>chain =
        [\<lparr>hash = Some ''7538'', height = 0, body = ''Genesis Block'', time = ''1600000000'',
          previousBlockHash = None\<rparr>,
         \<lparr>hash = Some ''6715'', height = 1, body = ''forged'', time = ''1600000100'',
          previousBlockHash = Some ''7538''\<rparr>,
         \<lparr>hash = Some ''6805'', height = 2, body = ''B|Deneb'', time = ''1600000200'',
          previousBlockHash = Some ''forged''\<rparr>],
      chainHeight = 2\<rparr>"
  unfolding tampered_def two_stars_eq by simp


text \<open>
  C2 (the code fails it). On a chain with a changed body in block 1 and a changed
  previous hash in block 2, \<^verbatim>\<open>validateChain\<close> pushes the message for block 1 and then
  throws on the assignment to the constant \<^verbatim>\<open>ChainIsValid\<close>: the promise never settles,
  no list of violations is returned, and block 2, which fails both of its checks, is
  never looked at. Both copies of the class behave so.
\<close>

theorem validateChain_stops_at_first_violation:
  "validateChain toy_libs tampered = Unsettled
   \<and> validateChain_part_000 toy_libs tampered = Unsettled
   \<and> forEach (check_block toy_libs) (chain tampered) (Zero, []) =
       TypeError (Hash (Some ''7538''), [''<br><hr>Il y a une erreur sur le block 1''])
   \<and> \<not> validate toy_libs (chain tampered ! 2)
   \<and> \<not> loose_eq toy_libs (previousBlockHash (chain tampered ! 2)) (Hash (hash (chain tampered ! 1)))"
  unfolding tampered_eq by code_simp


section \<open>Submissions\<close>

lemma check_block_Normal:
  "check_block L b st = Normal st' \<Longrightarrow> st' = (Hash (hash b), snd st)"
  by (auto simp: check_block_def Let_def split: if_splits)

lemma forEach_check_block_Normal:
  "forEach (check_block L) bs st = Normal st' \<Longrightarrow> bs \<noteq> [] \<Longrightarrow> st' = (Hash (hash (last bs)), snd st)"
proof (induction bs arbitrary: st)
  case Nil
  then show ?case by simp
next
  case (Cons b bs)
  from Cons.prems(1) obtain st1 where
    one: "check_block L b st = Normal st1" and more: "forEach (check_block L) bs st1 = Normal st'"
    by (auto split: completion.splits)
  from check_block_Normal [OF one] have st1: "st1 = (Hash (hash b), snd st)" .
  show ?case
  proof (cases "bs = []")
    case True
    with more st1 show ?thesis by simp
  next
    case False
    from Cons.IH [OF more False] st1 False show ?thesis by simp
  qed
qed

lemma valid_store_sound:
  assumes "chain s \<noteq> []" and "chainHeight s = int (length (chain s)) - 1"
    and "validateChain L s = Resolved True"
  shows "sound L s"
proof -
  from assms(3) obtain st where run: "forEach (check_block L) (chain s) (Zero, []) = Normal st"
    by (auto simp: validateChain_def split: completion.splits)
  from forEach_check_block_Normal [OF run assms(1)] run assms(1,2) show ?thesis
    by (simp add: sound_def)
qed

lemma submitStar_verified:
  assumes "num_lt (num_sub (parseInt (Some now)) (parseInt (at_index (split_on CHR '':'' message) 1))) 300"
    and "verify L message a sg = Returns True"
    and "sound L s"
  shows "submitStar L s a message sg st now stamp =
           \<lparr>outcome = Resolved (last (chain (snd (addBlock L s (Block L (Star_data a message sg st)) stamp)))),
            final = snd (addBlock L s (Block L (Star_data a message sg st)) stamp),
            verify_calls = 1\<rparr>"
proof -
  let ?b = "Block L (Star_data a message sg st)"
  obtain p s' where add: "addBlock L s ?b stamp = (p, s')"
    by (cases "addBlock L s ?b stamp")
  from sound_addBlock_resolves [OF assms(3), of ?b stamp] add
  have p: "p = Resolved (last (chain s'))"
    by simp
  have "sound L (snd (addBlock L s ?b stamp))"
    by (rule sound_addBlock [OF assms(3)])
  from sound_validateChain [OF this] add
  have ok: "validateChain L s' = Resolved True"
    by simp
  show ?thesis
    using assms(1,2) ok
    by (simp add: submitStar_def Let_def add p)
qed

lemma submitStar_part_000_verified:
  assumes "\<not> num_gt (num_sub (parseInt (Some now)) (parseInt (at_index (split_on CHR '':'' message) 1))) 300"
    and "verify L message a sg = Returns True"
    and "chain s \<noteq> []" and "chainHeight s = int (length (chain s)) - 1"
  shows "submitStar_part_000 L s a message sg st now stamp =
           \<lparr>outcome = Resolved (last (chain (snd (addBlock L s (Block L (Star_data a message sg st)) stamp)))),
            final = snd (addBlock L s (Block L (Star_data a message sg st)) stamp),
            verify_calls = 1\<rparr>"
proof -
  let ?b = "Block L (Star_data a message sg st)"
  from assms(3) have "0 < length (chain s)" by simp
  with assms(4) have h1: "chainHeight s \<noteq> - 1" by linarith
  show ?thesis
    using assms(1,2)
    by (simp add: submitStar_part_000_def Let_def settle_def addBlock_nonempty [OF assms(3) h1] seal_def)
qed


lemma timing_cases:
  assumes "parseInt (at_index (split_on CHR '':'' message) 1) = Some T"
    and "parseInt (Some now) = Some c"
  shows "num_lt (num_sub (parseInt (Some now)) (parseInt (at_index (split_on CHR '':'' message) 1))) 300
           = (c - T < 300)"
    and "num_gt (num_sub (parseInt (Some now)) (parseInt (at_index (split_on CHR '':'' message) 1))) 300
           = (300 < c - T)"
  using assms by (simp_all add: num_lt_def num_gt_def num_sub_def)

lemma submitStar_too_late:
  assumes "\<not> num_lt (num_sub (parseInt (Some now)) (parseInt (at_index (split_on CHR '':'' message) 1))) 300"
  shows "submitStar L s a message sg st now stamp =
           \<lparr>outcome = Rejected (Reason ''The 5 minute delay has been reached''),
            final = s, verify_calls = 0\<rparr>"
  using assms by (simp add: submitStar_def Let_def)

lemma submitStar_in_time_not_expiry:
  assumes "num_lt (num_sub (parseInt (Some now)) (parseInt (at_index (split_on CHR '':'' message) 1))) 300"
  shows "outcome (submitStar L s a message sg st now stamp)
           \<noteq> Rejected (Reason ''The 5 minute delay has been reached'')"
  using assms
  by (auto simp: submitStar_def Let_def split: prod.splits promise.splits verdict.splits)

lemma submitStar_part_000_too_late:
  assumes "num_gt (num_sub (parseInt (Some now)) (parseInt (at_index (split_on CHR '':'' message) 1))) 300"
  shows "submitStar_part_000 L s a message sg st now stamp =
           \<lparr>outcome = Rejected (Reason ''submitStar: more than five minutes have elapsed''),
            final = s, verify_calls = 1\<rparr>"
  using assms by (simp add: submitStar_part_000_def Let_def settle_def)

lemma submitStar_part_000_in_time_not_expiry:
  assumes "\<not> num_gt (num_sub (parseInt (Some now)) (parseInt (at_index (split_on CHR '':'' message) 1))) 300"
  shows "outcome (submitStar_part_000 L s a message sg st now stamp)
           \<noteq> Rejected (Reason ''submitStar: more than five minutes have elapsed'')"
  using assms
  by (auto simp: submitStar_part_000_def Let_def settle_def split: prod.splits promise.splits verdict.splits)

text \<open>
  C4, as the code has it. When the second field of the message does not parse to a
  number, \<^verbatim>\<open>submitStar\<close> of \<^verbatim>\<open>src/blockchain.js\<close> rejects without calling the
  signature check and without appending; the reason it gives is the one of an expired
  challenge, there being no error of its own for a malformed one.
\<close>

theorem submitStar_malformed_timestamp:
  assumes "parseInt (at_index (split_on CHR '':'' message) 1) = None"
  shows "submitStar L s a message sg st now stamp =
           \<lparr>outcome = Rejected (Reason ''The 5 minute delay has been reached''),
            final = s, verify_calls = 0\<rparr>"
proof (rule submitStar_too_late)
  from assms show "\<not> num_lt (num_sub (parseInt (Some now)) (parseInt (at_index (split_on CHR '':'' message) 1))) 300"
    by (simp add: num_lt_def num_sub_def split: option.splits)
qed

text \<open>
  C5, as the code has it. With a well-formed timestamp \<open>T\<close> and the clock at \<open>c\<close>,
  \<^verbatim>\<open>submitStar\<close> of \<^verbatim>\<open>src/blockchain.js\<close> rejects with its expiry reason exactly when
  \<open>c - T\<close> is 300 or more, and the copy in \<^verbatim>\<open>part_000\<close> exactly when it is more than 300.
  A submission whose signature verifies succeeds with the appended block when
  \<open>c - T < 300\<close> (so at 299) on a store that validates, and in \<^verbatim>\<open>part_000\<close> when
  \<open>c - T \<le> 300\<close>; at 301 both reject as expired.
\<close>

theorem submitStar_expiry_threshold:
  assumes "parseInt (at_index (split_on CHR '':'' message) 1) = Some T"
    and "parseInt (Some now) = Some c"
  shows "(outcome (submitStar L s a message sg st now stamp)
            = Rejected (Reason ''The 5 minute delay has been reached'')) = (300 \<le> c - T)
         \<and> (outcome (submitStar_part_000 L s a message sg st now stamp)
            = Rejected (Reason ''submitStar: more than five minutes have elapsed'')) = (300 < c - T)
         \<and> (c - T < 300 \<and> verify L message a sg = Returns True
              \<and> chain s \<noteq> [] \<and> chainHeight s = int (length (chain s)) - 1
              \<and> validateChain L s = Resolved True
            \<longrightarrow> submitStar L s a message sg st now stamp =
                  \<lparr>outcome = Resolved (last (chain (snd (addBlock L s (Block L (Star_data a message sg st)) stamp)))),
                   final = snd (addBlock L s (Block L (Star_data a message sg st)) stamp),
                   verify_calls = 1\<rparr>)
         \<and> (c - T \<le> 300 \<and> verify L message a sg = Returns True
              \<and> chain s \<noteq> [] \<and> chainHeight s = int (length (chain s)) - 1
            \<longrightarrow> submitStar_part_000 L s a message sg st now stamp =
                  \<lparr>outcome = Resolved (last (chain (snd (addBlock L s (Block L (Star_data a message sg st)) stamp)))),
                   final = snd (addBlock L s (Block L (Star_data a message sg st)) stamp),
                   verify_calls = 1\<rparr>)"
proof -
  note t = timing_cases [OF assms]
  have a: "(outcome (submitStar L s a message sg st now stamp)
            = Rejected (Reason ''The 5 minute delay has been reached'')) = (300 \<le> c - T)"
  proof (cases "c - T < 300")
    case True
    with t(1) submitStar_in_time_not_expiry [of now message L s a sg st stamp] show ?thesis by simp
  next
    case False
    with t(1) submitStar_too_late [of now message L s a sg st stamp] show ?thesis by simp
  qed
  have b: "(outcome (submitStar_part_000 L s a message sg st now stamp)
            = Rejected (Reason ''submitStar: more than five minutes have elapsed'')) = (300 < c - T)"
  proof (cases "300 < c - T")
    case True
    with t(2) submitStar_part_000_too_late [of now message L s a sg st stamp] show ?thesis by simp
  next
    case False
    with t(2) submitStar_part_000_in_time_not_expiry [of now message L s a sg st stamp] show ?thesis by simp
  qed
  have c: "submitStar L s a message sg st now stamp =
                  \<lparr>outcome = Resolved (last (chain (snd (addBlock L s (Block L (Star_data a message sg st)) stamp)))),
                   final = snd (addBlock L s (Block L (Star_data a message sg st)) stamp),
                   verify_calls = 1\<rparr>"
    if "c - T < 300" "verify L message a sg = Returns True"
       "chain s \<noteq> []" "chainHeight s = int (length (chain s)) - 1" "validateChain L s = Resolved True"
  proof (rule submitStar_verified)
    from that(1) t(1) show "num_lt (num_sub (parseInt (Some now)) (parseInt (at_index (split_on CHR '':'' message) 1))) 300"
      by simp
    show "verify L message a sg = Returns True" by (rule that(2))
    show "sound L s" by (rule valid_store_sound [OF that(3,4,5)])
  qed
  have d: "submitStar_part_000 L s a message sg st now stamp =
                  \<lparr>outcome = Resolved (last (chain (snd (addBlock L s (Block L (Star_data a message sg st)) stamp)))),
                   final = snd (addBlock L s (Block L (Star_data a message sg st)) stamp),
                   verify_calls = 1\<rparr>"
    if "c - T \<le> 300" "verify L message a sg = Returns True"
       "chain s \<noteq> []" "chainHeight s = int (length (chain s)) - 1"
  proof (rule submitStar_part_000_verified)
    from that(1) t(2) show "\<not> num_gt (num_sub (parseInt (Some now)) (parseInt (at_index (split_on CHR '':'' message) 1))) 300"
      by simp
  qed (rule that)+
  from a b c d show ?thesis by blast
qed

text \<open>
  C6, as the code has it. When more than 300 seconds have elapsed, \<^verbatim>\<open>submitStar\<close>
  rejects once, with the expiry reason, and leaves the store as it was, whatever the
  signature check \<open>v\<close> would answer. The one of \<^verbatim>\<open>src/blockchain.js\<close> does not call the
  check; the one of \<^verbatim>\<open>part_000\<close> still calls it once and ignores the answer.
\<close>

theorem submitStar_expired_whatever_the_verifier:
  assumes "parseInt (at_index (split_on CHR '':'' message) 1) = Some T"
    and "parseInt (Some now) = Some c"
    and "300 < c - T"
  shows "submitStar (L\<lparr>verify := v\<rparr>) s a message sg st now stamp =
           \<lparr>outcome = Rejected (Reason ''The 5 minute delay has been reached''),
            final = s, verify_calls = 0\<rparr>
         \<and> submitStar_part_000 (L\<lparr>verify := v\<rparr>) s a message sg st now stamp =
           \<lparr>outcome = Rejected (Reason ''submitStar: more than five minutes have elapsed''),
            final = s, verify_calls = 1\<rparr>"
proof -
  note t = timing_cases [OF assms(1,2)]
  from t(1) assms(3) have "\<not> num_lt (num_sub (parseInt (Some now)) (parseInt (at_index (split_on CHR '':'' message) 1))) 300"
    by simp
  from submitStar_too_late [OF this] have a: "submitStar (L\<lparr>verify := v\<rparr>) s a message sg st now stamp =
           \<lparr>outcome = Rejected (Reason ''The 5 minute delay has been reached''),
            final = s, verify_calls = 0\<rparr>" .
  from t(2) assms(3) have "num_gt (num_sub (parseInt (Some now)) (parseInt (at_index (split_on CHR '':'' message) 1))) 300"
    by simp
  from submitStar_part_000_too_late [OF this] a show ?thesis by simp
qed

text \<open>
  C7. When the signature check returns \<^verbatim>\<open>false\<close> or raises and the timing check has
  passed, \<^verbatim>\<open>submitStar\<close> rejects for the signature (\<^verbatim>\<open>src/blockchain.js\<close> with its
  message, \<^verbatim>\<open>part_000\<close> with the block it did not append) and the store, chain and
  height counter, is the same after the call as before it.
\<close>

theorem submitStar_invalid_signature:
  assumes "verify L message a sg = Returns False \<or> verify L message a sg = Raises"
  shows "(num_lt (num_sub (parseInt (Some now)) (parseInt (at_index (split_on CHR '':'' message) 1))) 300
            \<longrightarrow> submitStar L s a message sg st now stamp =
                  \<lparr>outcome = Rejected (Reason ''There was a error verifiyng your message.''),
                   final = s, verify_calls = 1\<rparr>)
         \<and> (\<not> num_gt (num_sub (parseInt (Some now)) (parseInt (at_index (split_on CHR '':'' message) 1))) 300
            \<longrightarrow> submitStar_part_000 L s a message sg st now stamp =
                  \<lparr>outcome = Rejected (Rejected_block (Block L (Star_data a message sg st))),
                   final = s, verify_calls = 1\<rparr>)"
  using assms
  by (auto simp: submitStar_def submitStar_part_000_def Let_def settle_def)

section \<open>Submissions on a concrete chain\<close>

lemma soon_unparsed: "parseInt (at_index (split_on CHR '':'' ''C:soon:starRegistry'') 1) = None"
  by code_simp

lemma issued_parsed:
  "parseInt (at_index (split_on CHR '':'' ''C:1600000000:starRegistry'') 1) = Some 1600000000"
  by code_simp

lemma clock_299: "parseInt (Some ''1600000299'') = Some 1600000299"
  by code_simp

lemma clock_300: "parseInt (Some ''1600000300'') = Some 1600000300"
  by code_simp

lemma clock_301: "parseInt (Some ''1600000301'') = Some 1600000301"
  by code_simp

lemma good_verifies: "verify toy_libs ''C:1600000000:starRegistry'' ''C'' ''good'' = Returns True"
  by code_simp

lemma bad_fails: "verify toy_libs ''C:1600000000:starRegistry'' ''C'' ''bad'' = Returns False"
  by code_simp

lemma two_stars_consistent:
  "chain two_stars \<noteq> [] \<and> chainHeight two_stars = int (length (chain two_stars)) - 1"
  unfolding two_stars_eq by simp

lemma two_stars_valid: "validateChain toy_libs two_stars = Resolved True"
  unfolding two_stars_eq by code_simp

lemma third_star:
  "addBlock toy_libs two_stars (Block toy_libs (Star_data ''C'' ''C:1600000000:starRegistry'' ''good'' ''Altair'')) ''1600000299'' =
     (Resolved \<lparr>hash = Some ''6952'', height = 3, body = ''C|Altair'', time = ''1600000299'',
                previousBlockHash = Some ''6805''\<rparr>,
      \<lparr>chain = chain two_stars @
          [\<lparr>hash = Some ''6952'', height = 3, body = ''C|Altair'', time = ''1600000299'',
            previousBlockHash = Some ''6805''\<rparr>],
       chainHeight = 3\<rparr>)"
  unfolding two_stars_eq by code_simp


text \<open>
  C4 as stated fails: a message whose second field is \<^verbatim>\<open>soon\<close> is rejected by
  \<^verbatim>\<open>src/blockchain.js\<close> with the very rejection an expired challenge gets, and is
  accepted by \<^verbatim>\<open>part_000\<close>, which appends the block.
\<close>

theorem malformed_rejected_as_expired:
  "parseInt (at_index (split_on CHR '':'' ''C:soon:starRegistry'') 1) = None
   \<and> outcome (submitStar toy_libs two_stars ''C'' ''C:soon:starRegistry'' ''good'' ''Altair''
                ''1600000299'' ''1600000299'')
       = Rejected (Reason ''The 5 minute delay has been reached'')
   \<and> outcome (submitStar toy_libs two_stars ''C'' ''C:1600000000:starRegistry'' ''good'' ''Altair''
                ''1600000301'' ''1600000301'')
       = Rejected (Reason ''The 5 minute delay has been reached'')
   \<and> outcome (submitStar_part_000 toy_libs two_stars ''C'' ''C:soon:starRegistry'' ''good'' ''Altair''
                ''1600000299'' ''1600000299'')
       = Resolved \<lparr>hash = Some ''6952'', height = 3, body = ''C|Altair'', time = ''1600000299'',
                   previousBlockHash = Some ''6805''\<rparr>"
  unfolding two_stars_eq by code_simp

theorem submitStar_malformed_timestamp_witness:
  "parseInt (at_index (split_on CHR '':'' ''C:soon:starRegistry'') 1) = None
   \<and> submitStar toy_libs two_stars ''C'' ''C:soon:starRegistry'' ''good'' ''Altair''
        ''1600000299'' ''1600000299'' =
       \<lparr>outcome = Rejected (Reason ''The 5 minute delay has been reached''),
        final = two_stars, verify_calls = 0\<rparr>"
  using soon_unparsed submitStar_malformed_timestamp [OF soon_unparsed]
  by blast

text \<open>
  C5 as stated fails at the boundary: at exactly 300 seconds, which does not exceed 300,
  \<^verbatim>\<open>src/blockchain.js\<close> rejects a submission whose signature verifies as expired.
\<close>

theorem rejected_at_300_seconds:
  "parseInt (at_index (split_on CHR '':'' ''C:1600000000:starRegistry'') 1) = Some 1600000000
   \<and> parseInt (Some ''1600000300'') = Some 1600000300
   \<and> \<not> (300 < 1600000300 - (1600000000::int))
   \<and> verify toy_libs ''C:1600000000:starRegistry'' ''C'' ''good'' = Returns True
   \<and> validateChain toy_libs two_stars = Resolved True
   \<and> outcome (submitStar toy_libs two_stars ''C'' ''C:1600000000:starRegistry'' ''good'' ''Altair''
                ''1600000300'' ''1600000300'')
       = Rejected (Reason ''The 5 minute delay has been reached'')"
  unfolding two_stars_eq by code_simp

theorem submitStar_expiry_threshold_witness:
  "parseInt (at_index (split_on CHR '':'' ''C:1600000000:starRegistry'') 1) = Some 1600000000
   \<and> parseInt (Some ''1600000299'') = Some 1600000299
   \<and> 1600000299 - 1600000000 < (300::int)
   \<and> verify toy_libs ''C:1600000000:starRegistry'' ''C'' ''good'' = Returns True
   \<and> chain two_stars \<noteq> [] \<and> chainHeight two_stars = int (length (chain two_stars)) - 1
   \<and> validateChain toy_libs two_stars = Resolved True
   \<and> outcome (submitStar toy_libs two_stars ''C'' ''C:1600000000:starRegistry'' ''good'' ''Altair''
                ''1600000299'' ''1600000299'')
       = Resolved \<lparr>hash = Some ''6952'', height = 3, body = ''C|Altair'', time = ''1600000299'',
                   previousBlockHash = Some ''6805''\<rparr>
   \<and> outcome (submitStar toy_libs two_stars ''C'' ''C:1600000000:starRegistry'' ''good'' ''Altair''
                ''1600000299'' ''1600000299'')
       \<noteq> Rejected (Reason ''The 5 minute delay has been reached'')
   \<and> outcome (submitStar_part_000 toy_libs two_stars ''C'' ''C:1600000000:starRegistry'' ''good''
                ''Altair'' ''1600000299'' ''1600000299'')
       = Resolved \<lparr>hash = Some ''6952'', height = 3, body = ''C|Altair'', time = ''1600000299'',
                   previousBlockHash = Some ''6805''\<rparr>"
proof -
  note t = submitStar_expiry_threshold [OF issued_parsed clock_299,
      of toy_libs two_stars "''C''" "''good''" "''Altair''" "''1600000299''"]
  have e: "1600000299 - 1600000000 < (300::int)" by simp
  have e': "\<not> 300 \<le> 1600000299 - (1600000000::int)" by simp
  have e'': "1600000299 - 1600000000 \<le> (300::int)" by simp
  from t e good_verifies two_stars_consistent two_stars_valid
  have "submitStar toy_libs two_stars ''C'' ''C:1600000000:starRegistry'' ''good'' ''Altair''
                ''1600000299'' ''1600000299'' =
     \<lparr>outcome = Resolved (last (chain (snd (addBlock toy_libs two_stars
          (Block toy_libs (Star_data ''C'' ''C:1600000000:starRegistry'' ''good'' ''Altair'')) ''1600000299'')))),
      final = snd (addBlock toy_libs two_stars
          (Block toy_libs (Star_data ''C'' ''C:1600000000:starRegistry'' ''good'' ''Altair'')) ''1600000299''),
      verify_calls = 1\<rparr>"
    by blast
  then have a: "outcome (submitStar toy_libs two_stars ''C'' ''C:1600000000:starRegistry'' ''good'' ''Altair''
                ''1600000299'' ''1600000299'')
       = Resolved \<lparr>hash = Some ''6952'', height = 3, body = ''C|Altair'', time = ''1600000299'',
                   previousBlockHash = Some ''6805''\<rparr>"
    by (simp add: third_star)
  from t e' have b: "outcome (submitStar toy_libs two_stars ''C'' ''C:1600000000:starRegistry'' ''good'' ''Altair''
                ''1600000299'' ''1600000299'')
       \<noteq> Rejected (Reason ''The 5 minute delay has been reached'')"
    by blast
  from t e'' good_verifies two_stars_consistent
  have "submitStar_part_000 toy_libs two_stars ''C'' ''C:1600000000:starRegistry'' ''good'' ''Altair''
                ''1600000299'' ''1600000299'' =
     \<lparr>outcome = Resolved (last (chain (snd (addBlock toy_libs two_stars
          (Block toy_libs (Star_data ''C'' ''C:1600000000:starRegistry'' ''good'' ''Altair'')) ''1600000299'')))),
      final = snd (addBlock toy_libs two_stars
          (Block toy_libs (Star_data ''C'' ''C:1600000000:starRegistry'' ''good'' ''Altair'')) ''1600000299''),
      verify_calls = 1\<rparr>"
    by blast
  then have c: "outcome (submitStar_part_000 toy_libs two_stars ''C'' ''C:1600000000:starRegistry'' ''good''
                ''Altair'' ''1600000299'' ''1600000299'')
       = Resolved \<lparr>hash = Some ''6952'', height = 3, body = ''C|Altair'', time = ''1600000299'',
                   previousBlockHash = Some ''6805''\<rparr>"
    by (simp add: third_star)
  from issued_parsed clock_299 e good_verifies two_stars_consistent two_stars_valid a b c
  show ?thesis by blast
qed

text \<open>
  C6 as stated fails in \<^verbatim>\<open>part_000\<close>: at 301 seconds the signature check is still
  called.
\<close>

theorem part_000_calls_verifier_after_expiry:
  "parseInt (at_index (split_on CHR '':'' ''C:1600000000:starRegistry'') 1) = Some 1600000000
   \<and> parseInt (Some ''1600000301'') = Some 1600000301
   \<and> 300 < 1600000301 - (1600000000::int)
   \<and> submitStar_part_000 toy_libs two_stars ''C'' ''C:1600000000:starRegistry'' ''good'' ''Altair''
        ''1600000301'' ''1600000301'' =
       \<lparr>outcome = Rejected (Reason ''submitStar: more than five minutes have elapsed''),
        final = two_stars, verify_calls = 1\<rparr>"
  unfolding two_stars_eq by code_simp

theorem submitStar_expired_whatever_the_verifier_witness:
  "parseInt (at_index (split_on CHR '':'' ''C:1600000000:starRegistry'') 1) = Some 1600000000
   \<and> parseInt (Some ''1600000301'') = Some 1600000301
   \<and> 300 < 1600000301 - (1600000000::int)
   \<and> submitStar (toy_libs\<lparr>verify := \<lambda>m a sg. Raises\<rparr>) two_stars ''C''
        ''C:1600000000:starRegistry'' ''good'' ''Altair'' ''1600000301'' ''1600000301'' =
       \<lparr>outcome = Rejected (Reason ''The 5 minute delay has been reached''),
        final = two_stars, verify_calls = 0\<rparr>
   \<and> submitStar_part_000 (toy_libs\<lparr>verify := \<lambda>m a sg. Raises\<rparr>) two_stars ''C''
        ''C:1600000000:starRegistry'' ''good'' ''Altair'' ''1600000301'' ''1600000301'' =
       \<lparr>outcome = Rejected (Reason ''submitStar: more than five minutes have elapsed''),
        final = two_stars, verify_calls = 1\<rparr>"
proof -
  have e: "300 < 1600000301 - (1600000000::int)" by simp
  from issued_parsed clock_301 e
    submitStar_expired_whatever_the_verifier [where L = toy_libs and v = "\<lambda>m a sg. Raises"
      and s = two_stars and a = "''C''" and sg = "''good''" and st = "''Altair''"
      and stamp = "''1600000301''", OF issued_parsed clock_301 e]
  show ?thesis by blast
qed

theorem submitStar_invalid_signature_witness:
  "verify toy_libs ''C:1600000000:starRegistry'' ''C'' ''bad'' = Returns False
   \<and> num_lt (num_sub (parseInt (Some ''1600000299''))
             (parseInt (at_index (split_on CHR '':'' ''C:1600000000:starRegistry'') 1))) 300
   \<and> submitStar toy_libs two_stars ''C'' ''C:1600000000:starRegistry'' ''bad'' ''Altair''
        ''1600000299'' ''1600000299'' =
       \<lparr>outcome = Rejected (Reason ''There was a error verifiyng your message.''),
        final = two_stars, verify_calls = 1\<rparr>
   \<and> \<not> num_gt (num_sub (parseInt (Some ''1600000299''))
             (parseInt (at_index (split_on CHR '':'' ''C:1600000000:starRegistry'') 1))) 300
   \<and> submitStar_part_000 toy_libs two_stars ''C'' ''C:1600000000:starRegistry'' ''bad'' ''Altair''
        ''1600000299'' ''1600000299'' =
       \<lparr>outcome = Rejected (Rejected_block
                    (Block toy_libs (Star_data ''C'' ''C:1600000000:starRegistry'' ''bad'' ''Altair''))),
        final = two_stars, verify_calls = 1\<rparr>"
proof -
  have lt: "num_lt (num_sub (parseInt (Some ''1600000299''))
             (parseInt (at_index (split_on CHR '':'' ''C:1600000000:starRegistry'') 1))) 300"
    unfolding timing_cases(1) [OF issued_parsed clock_299] by simp
  have gt: "\<not> num_gt (num_sub (parseInt (Some ''1600000299''))
             (parseInt (at_index (split_on CHR '':'' ''C:1600000000:starRegistry'') 1))) 300"
    unfolding timing_cases(2) [OF issued_parsed clock_299] by simp
  from bad_fails have "verify toy_libs ''C:1600000000:starRegistry'' ''C'' ''bad'' = Returns False
      \<or> verify toy_libs ''C:1600000000:starRegistry'' ''C'' ''bad'' = Raises"
    by simp
  from submitStar_invalid_signature [where now = "''1600000299''" and s = two_stars
      and st = "''Altair''" and stamp = "''1600000299''", OF this]
    bad_fails lt gt
  show ?thesis by blast
qed

text \<open>
  C3 (the code fails it). A submission in time and with a good signature, on the chain
  above: the block is appended, the validator then finds the chain invalid, and
  \<^verbatim>\<open>submitStar\<close> of \<^verbatim>\<open>src/blockchain.js\<close> never settles its promise, so no failure is
  reported; \<^verbatim>\<open>submitStar\<close> of \<^verbatim>\<open>part_000\<close> resolves with the block as a success.
\<close>

theorem submitStar_on_invalid_chain:
  "outcome (submitStar toy_libs tampered ''C'' ''C:1600000250:starRegistry'' ''good'' ''Altair''
              ''1600000300'' ''1600000300'') = Unsettled
   \<and> length (chain (final (submitStar toy_libs tampered ''C'' ''C:1600000250:starRegistry'' ''good''
              ''Altair'' ''1600000300'' ''1600000300''))) = length (chain tampered) + 1
   \<and> outcome (submitStar_part_000 toy_libs tampered ''C'' ''C:1600000250:starRegistry'' ''good''
              ''Altair'' ''1600000300'' ''1600000300'') =
       Resolved \<lparr>hash = Some ''6935'', height = 3, body = ''C|Altair'', time = ''1600000300'',
                 previousBlockHash = Some ''6805''\<rparr>
   \<and> validateChain_part_000 toy_libs
        (final (submitStar_part_000 toy_libs tampered ''C'' ''C:1600000250:starRegistry'' ''good''
              ''Altair'' ''1600000300'' ''1600000300'')) = Unsettled"
  unfolding tampered_eq by code_simp


section \<open>Lookups\<close>

text \<open>
  \<^verbatim>\<open>getStarsByWalletAddress\<close> of \<^verbatim>\<open>src/blockchain.js\<close> returns, in chain order, the decoded
  payloads of the blocks that are not at height 0 and whose decoded owner is the queried
  address.
\<close>

lemma foldl_visit:
  "foldl (visit L addr) acc bs =
     acc @ map (\<lambda>b. the (getBData L b))
             (filter (\<lambda>b. height b \<noteq> 0
                 \<and> (case getBData L b of None \<Rightarrow> False | Some p \<Rightarrow> payload_address p = addr)) bs)"
  by (induction bs arbitrary: acc) (auto simp: visit_def split: option.splits)

lemma getStarsByWalletAddress_selects:
  "getStarsByWalletAddress L s addr =
     Resolved (map (\<lambda>b. the (getBData L b))
                (filter (\<lambda>b. height b \<noteq> 0
                    \<and> (case getBData L b of None \<Rightarrow> False | Some p \<Rightarrow> payload_address p = addr))
                  (chain s)))"
  by (simp add: getStarsByWalletAddress_def foldl_visit)

text \<open>
  C8 (the code fails it). \<^verbatim>\<open>getStarsByWalletAddress\<close> of \<^verbatim>\<open>part_000\<close> has no test for the
  genesis block: when the block at height 0 decodes to the queried owner, its payload is
  returned, where the copy in \<^verbatim>\<open>src/blockchain.js\<close> returns nothing; and on the chain the
  constructor builds, a query with \<^verbatim>\<open>undefined\<close> returns the genesis payload.
\<close>

theorem getStarsByWalletAddress_part_000_returns_genesis:
  "getStarsByWalletAddress_part_000 toy_libs owned_genesis (Some ''A'') =
     Resolved [Payload (Some ''A'') ''A|Sirius'']
   \<and> getStarsByWalletAddress toy_libs owned_genesis (Some ''A'') = Resolved []
   \<and> getStarsByWalletAddress_part_000 toy_libs (Blockchain toy_libs ''1600000000'') None =
     Resolved [Payload None ''Genesis Block'']"
  by code_simp

end
